theory Spec2Isabelle
  imports Complex_Main "HOL-Library.Word"
begin

section \<open>JavaScript values used by the application\<close>

text \<open>
  A JavaScript string is a sequence of UTF-16 code units; \<open>length\<close> counts code units.
  \<open>js\<close> embeds an ASCII literal of the source.  A value that may be \<open>null\<close> or
  \<open>undefined\<close> is an \<open>option\<close>; an exception is the left summand of a sum.
\<close>

type_synonym code_unit = "16 word"
type_synonym js_string = "code_unit list"

definition js :: "string \<Rightarrow> js_string" where
  "js s = map (\<lambda>c. of_nat (of_char c)) s"

text \<open>Truthiness of a \<open>string | null | undefined\<close>: only a non-empty string is truthy.\<close>

fun truthy :: "js_string option \<Rightarrow> bool" where
  "truthy None = False"
| "truthy (Some s) = (s \<noteq> [])"

text \<open>\<open>a || b\<close> on strings.\<close>

definition or_else :: "js_string option \<Rightarrow> js_string option \<Rightarrow> js_string option" where
  "or_else a b = (if truthy a then a else b)"

text \<open>
  \<open>String.prototype.trim\<close> removes the code units of ECMAScript's WhiteSpace and
  LineTerminator productions from both ends.
\<close>

definition is_white_space :: "code_unit \<Rightarrow> bool" where
  "is_white_space c \<longleftrightarrow>
     c \<in> {0x0009, 0x000A, 0x000B, 0x000C, 0x000D, 0x0020, 0x00A0, 0x1680,
          0x2000, 0x2001, 0x2002, 0x2003, 0x2004, 0x2005, 0x2006, 0x2007, 0x2008, 0x2009, 0x200A,
          0x2028, 0x2029, 0x202F, 0x205F, 0x3000, 0xFEFF}"

definition trim :: "js_string \<Rightarrow> js_string" where
  "trim s = rev (dropWhile is_white_space (rev (dropWhile is_white_space s)))"

datatype js_error = Error (message: js_string)

section \<open>JSON values\<close>

text \<open>
  What \<open>JSON.parse\<close> yields.  A number is a finite value or, for a literal beyond
  the range of the doubles, an infinity.  An object lists each of its properties once.
  The casts \<open>as Song[]\<close> of the source are unchecked, so that the values the
  application holds are these, whatever their declared type.  \<open>None\<close> from the
  parser is its \<open>SyntaxError\<close>; the parser is platform code and a parameter of the
  model.
\<close>

datatype number = Finite real | Infinity | Minus_infinity

datatype json =
    JNull
  | JBool bool
  | JNum number
  | JStr js_string
  | JArr "json list"
  | JObj "(js_string \<times> json) list"

type_synonym json_parse = "js_string \<Rightarrow> json option"

fun truthy_json :: "json \<Rightarrow> bool" where
  "truthy_json JNull = False"
| "truthy_json (JBool b) = b"
| "truthy_json (JNum (Finite x)) = (x \<noteq> 0)"
| "truthy_json (JNum Infinity) = True"
| "truthy_json (JNum Minus_infinity) = True"
| "truthy_json (JStr s) = (s \<noteq> [])"
| "truthy_json (JArr xs) = True"
| "truthy_json (JObj fs) = True"

text \<open>The decimal numeral of an array index, as a property name.\<close>

function decimal :: "nat \<Rightarrow> js_string" where
  "decimal n = (if n < 10 then [of_nat (48 + n)] else decimal (n div 10) @ [of_nat (48 + n mod 10)])"
  by pat_completeness auto
termination
  by (relation "measure (\<lambda>n. n)") auto

text \<open>
  The own enumerable properties that a spread \<open>{...r}\<close> copies: those of an object,
  the elements of an array and the code units of a string under their indices, none
  for \<open>null\<close>, a boolean or a number.
\<close>

fun own_properties :: "json \<Rightarrow> (js_string \<times> json) list" where
  "own_properties (JObj fs) = fs"
| "own_properties (JArr xs) = zip (map decimal [0 ..< length xs]) xs"
| "own_properties (JStr s) = zip (map decimal [0 ..< length s]) (map (\<lambda>c. JStr [c]) s)"
| "own_properties JNull = []"
| "own_properties (JBool b) = []"
| "own_properties (JNum x) = []"

text \<open>Setting a property: in place when the object has it, at the end otherwise.\<close>

fun set_property :: "js_string \<Rightarrow> json \<Rightarrow> (js_string \<times> json) list \<Rightarrow> (js_string \<times> json) list" where
  "set_property k v [] = [(k, v)]"
| "set_property k v ((k', v') # fs) =
     (if k' = k then (k, v) # fs else (k', v') # set_property k v fs)"

text \<open>
  \<open>r.id\<close> of a value other than \<open>null\<close>, and \<open>v.length\<close> of a truthy value;
  \<open>None\<close> is \<open>undefined\<close>.
\<close>

fun get_id :: "json \<Rightarrow> json option" where
  "get_id (JObj fs) = map_of fs (js ''id'')"
| "get_id JNull = None"
| "get_id (JBool b) = None"
| "get_id (JNum x) = None"
| "get_id (JStr s) = None"
| "get_id (JArr xs) = None"

fun get_length :: "json \<Rightarrow> json option" where
  "get_length (JStr s) = Some (JNum (Finite (real (length s))))"
| "get_length (JArr xs) = Some (JNum (Finite (real (length xs))))"
| "get_length (JObj fs) = map_of fs (js ''length'')"
| "get_length JNull = None"
| "get_length (JBool b) = None"
| "get_length (JNum x) = None"

text \<open>
  \<open>v > 5\<close>, \<open>None\<close> when it throws.  \<open>undefined\<close> becomes \<open>NaN\<close>, \<open>null\<close> 0 and
  a boolean 0 or 1.  For a string, an array or an object the engine converts the
  operand to a primitive and then to a number, which can throw; that comparison is the
  parameter \<open>coerced\<close>.
\<close>

fun greater_than_5 :: "(json \<Rightarrow> bool option) \<Rightarrow> json option \<Rightarrow> bool option" where
  "greater_than_5 coerced None = Some False"
| "greater_than_5 coerced (Some (JNum (Finite x))) = Some (x > 5)"
| "greater_than_5 coerced (Some (JNum Infinity)) = Some True"
| "greater_than_5 coerced (Some (JNum Minus_infinity)) = Some False"
| "greater_than_5 coerced (Some JNull) = Some False"
| "greater_than_5 coerced (Some (JBool b)) = Some False"
| "greater_than_5 coerced (Some (JStr s)) = coerced (JStr s)"
| "greater_than_5 coerced (Some (JArr xs)) = coerced (JArr xs)"
| "greater_than_5 coerced (Some (JObj fs)) = coerced (JObj fs)"

section \<open>types.ts\<close>

datatype match_type = Texto | Melodia | Contexto

text \<open>
  \<open>interface Song\<close>.  The identifier is optional in the model because the code that
  receives records tests \<open>r.id\<close> for presence before it reads its length.
\<close>

record Song =
  id' :: "js_string option"
  titulo :: js_string
  artista :: js_string
  matchType :: match_type
  confidence :: real
  description :: "js_string option"

text \<open>
  \<open>interface SearchState\<close>.  The result list holds the values the response was
  parsed to, each with its identifier set.
\<close>

record SearchState =
  isLoading :: bool
  error :: "js_string option"
  results :: "json list"

datatype RecorderStatus = IDLE | RECORDING | FINISHED

section \<open>App.tsx: the favorites list\<close>

text \<open>
  The initialiser of the \<open>favorites\<close> state.  Its argument is what
  \<open>localStorage.getItem('jacareFavorites')\<close> does: it throws, or returns \<open>null\<close>
  or the stored string.
\<close>

definition load_favorites :: "json_parse \<Rightarrow> js_error + js_string option \<Rightarrow> json" where
  "load_favorites JSON_parse getItem =
     (case getItem of
        Inl e \<Rightarrow> JArr []
      | Inr saved \<Rightarrow>
          (if truthy saved
           then (case JSON_parse (the saved) of None \<Rightarrow> JArr [] | Some v \<Rightarrow> v)
           else JArr []))"

text \<open>
  The first render evaluates \<open>favorites.length > 0\<close> for the badge of the favorites
  tab.  Reading a property of \<open>null\<close> throws (\<open>Inl\<close>), and nothing is rendered.
\<close>

definition favorites_length :: "json \<Rightarrow> unit + json option" where
  "favorites_length favorites = (if favorites = JNull then Inl () else Inr (get_length favorites))"

text \<open>\<open>toggleFavorite\<close>: the updater passed to \<open>setFavorites\<close>, applied to the list.\<close>

definition toggleFavorite :: "Song \<Rightarrow> Song list \<Rightarrow> Song list" where
  "toggleFavorite song prev =
     (let isFav = list_ex (\<lambda>f. id' f = id' song) prev
      in if isFav then filter (\<lambda>f. id' f \<noteq> id' song) prev else prev @ [song])"

section \<open>services/geminiService.ts\<close>

text \<open>
  The request handed to \<open>ai.models.generateContent\<close>: the model name and the parts.
  The \<open>config\<close> object is the same constant in every call and is left out.
\<close>

datatype part = text_part js_string | inlineData (part_mimeType: js_string) (part_data: js_string)

record request =
  model :: js_string
  parts :: "part list"

text \<open>
  The remote call is a parameter: it throws, or returns a response whose \<open>text\<close> is a
  string or \<open>undefined\<close>.
\<close>

type_synonym generate_content = "request \<Rightarrow> js_error + js_string option"

text \<open>The three prompt texts of \<open>searchMusic\<close>, with the template's line break.\<close>

definition prompt_audio_and_text :: "js_string \<Rightarrow> js_string" where
  \<open>prompt_audio_and_text text =
     js ''Identify the song based on the audio melody provided AND the following user description: "''
     @ text
     @ js ''". \<newline>    The audio is the primary source for melody matching, but use the text for context.''\<close>

definition prompt_audio_only :: js_string where
  \<open>prompt_audio_only =
     js ''Identify this song based on the hummed or recorded melody. Return the most likely matches.''\<close>

definition prompt_text_only :: "js_string \<Rightarrow> js_string" where
  \<open>prompt_text_only text =
     js ''Find songs matching this description: "'' @ text
     @ js ''". If it mentions a movie scene, mood, or vague lyrics, use your knowledge to find the specific track.''\<close>

text \<open>
  Lines 33 to 55 of \<open>searchMusic\<close>: the request it builds.  The third argument is
  \<open>None\<close> when the caller passes no media type (\<open>undefined\<close>), which selects the
  parameter's default.
\<close>

definition build_request :: "js_string \<Rightarrow> js_string option \<Rightarrow> js_string option \<Rightarrow> request" where
  "build_request text audioBase64 mimeType_arg =
     (let mimeType = (case mimeType_arg of None \<Rightarrow> js ''audio/webm'' | Some m \<Rightarrow> m);
          modelName = (if truthy audioBase64 then js ''gemini-2.5-flash'' else js ''gemini-2.5-flash'');
          promptText =
            (if truthy audioBase64 \<and> text \<noteq> [] then prompt_audio_and_text text
             else if truthy audioBase64 then prompt_audio_only
             else prompt_text_only text);
          parts0 = [text_part promptText];
          parts1 = (if truthy audioBase64 then parts0 @ [inlineData mimeType (the audioBase64)]
                    else parts0)
      in \<lparr>model = modelName, parts = parts1\<rparr>)"

definition search_failed :: js_error where
  "search_failed = Error (js ''Failed to search for music. Please try again.'')"

text \<open>
  \<open>searchMusic\<close>: the value it resolves to or the error it throws, and the requests
  it sent to the remote service.
\<close>

definition searchMusic ::
  "generate_content \<Rightarrow> json_parse \<Rightarrow> js_string \<Rightarrow> js_string option \<Rightarrow> js_string option
     \<Rightarrow> (js_error + json) \<times> request list" where
  "searchMusic generateContent JSON_parse text audioBase64 mimeType_arg =
     (let req = build_request text audioBase64 mimeType_arg
      in ((case generateContent req of
             Inl e \<Rightarrow> Inl search_failed
           | Inr textResponse \<Rightarrow>
               (if \<not> truthy textResponse then Inr (JArr [])
                else (case JSON_parse (the textResponse) of
                        None \<Rightarrow> Inl search_failed
                      | Some parsed_results \<Rightarrow> Inr parsed_results))),
          [req]))"

section \<open>App.tsx: the search\<close>

record audio =
  base64 :: js_string
  mimeType :: js_string

datatype tab = search_tab | favorites_tab

record App =
  searchText :: js_string
  audioData :: "audio option"
  activeTab :: tab
  state :: SearchState
  favorites :: "Song list"

text \<open>
  What the platform supplies to \<open>handleSearch\<close>: the remote call, the JSON parser,
  the successive values of \<open>crypto.randomUUID()\<close> (the \<open>k\<close>-th call returns
  \<open>randomUUID k\<close>), the engine's comparison with 5 of an operand that is not a
  primitive number, and the message of the \<open>TypeError\<close> the engine raises when
  \<open>rawResults.map(...)\<close> fails: the value has no \<open>map\<close>, or the callback cannot
  read \<open>r.id\<close> or convert an operand.  A search raises at most one such error, and
  \<open>not_a_function\<close> is its message.
\<close>

record platform =
  generateContent :: generate_content
  JSON_parse :: json_parse
  randomUUID :: "nat \<Rightarrow> js_string"
  coerced_gt_5 :: "json \<Rightarrow> bool option"
  not_a_function :: js_string

text \<open>The effects of a search outside the component: requests sent, identifiers drawn.\<close>

record world =
  remote_calls :: "request list"
  uuids_drawn :: nat

text \<open>\<open>r.id && r.id.length > 5\<close>\<close>

definition keeps_id :: "Song \<Rightarrow> bool" where
  "keeps_id r \<longleftrightarrow> truthy (id' r) \<and> length (the (id' r)) > 5"

text \<open>
  \<open>rawResults.map(r => ({...r, id: ... ? r.id : crypto.randomUUID()}))\<close> on records
  of the declared type, the number of identifiers drawn so far passed along.
\<close>

fun normalize_ids :: "(nat \<Rightarrow> js_string) \<Rightarrow> nat \<Rightarrow> Song list \<Rightarrow> Song list \<times> nat" where
  "normalize_ids uuid n [] = ([], n)"
| "normalize_ids uuid n (r # rs) =
     (if keeps_id r
      then (let (out, n') = normalize_ids uuid n rs in (r\<lparr>id' := id' r\<rparr> # out, n'))
      else (let (out, n') = normalize_ids uuid (Suc n) rs in (r\<lparr>id' := Some (uuid n)\<rparr> # out, n')))"


text \<open>
  The same on the values of the parsed response, which need not be such records.
  \<open>keeps_json\<close> is the test
  \<open>r.id && r.id.length > 5\<close> on an element other than \<open>null\<close>, \<open>None\<close> when the
  comparison throws.
\<close>

definition keeps_json :: "(json \<Rightarrow> bool option) \<Rightarrow> json \<Rightarrow> bool option" where
  "keeps_json coerced r =
     (case get_id r of
        None \<Rightarrow> Some False
      | Some v \<Rightarrow> if truthy_json v then greater_than_5 coerced (get_length v) else Some False)"

text \<open>
  The callback \<open>r => ({...r, id: ... ? r.id : crypto.randomUUID()})\<close> on one element:
  the new element and the number of identifiers drawn, or \<open>None\<close> when it throws, as
  the read of \<open>r.id\<close> does for \<open>null\<close>.
\<close>

definition unique_id ::
  "(json \<Rightarrow> bool option) \<Rightarrow> (nat \<Rightarrow> js_string) \<Rightarrow> nat \<Rightarrow> json \<Rightarrow> (json \<times> nat) option" where
  "unique_id coerced uuid n r =
     (if r = JNull then None
      else (case keeps_json coerced r of
              None \<Rightarrow> None
            | Some True \<Rightarrow>
                Some (JObj (set_property (js ''id'') (the (get_id r)) (own_properties r)), n)
            | Some False \<Rightarrow>
                Some (JObj (set_property (js ''id'') (JStr (uuid n)) (own_properties r)), Suc n)))"

text \<open>
  \<open>rawResults.map(...)\<close> on an array: the new array, or \<open>None\<close> when the callback
  throws at some element, with the number of identifiers drawn up to there.
\<close>

fun map_unique_id ::
  "(json \<Rightarrow> bool option) \<Rightarrow> (nat \<Rightarrow> js_string) \<Rightarrow> nat \<Rightarrow> json list \<Rightarrow> json list option \<times> nat" where
  "map_unique_id coerced uuid n [] = (Some [], n)"
| "map_unique_id coerced uuid n (r # rs) =
     (case unique_id coerced uuid n r of
        None \<Rightarrow> (None, n)
      | Some (r', n') \<Rightarrow>
          (case map_unique_id coerced uuid n' rs of
             (None, m) \<Rightarrow> (None, m)
           | (Some out, m) \<Rightarrow> (Some (r' # out), m)))"

text \<open>
  \<open>rawResults.map(...)\<close> on what the response was parsed to: a value that is not
  an array has no \<open>map\<close>, and the call throws.
\<close>

fun raw_map ::
  "(json \<Rightarrow> bool option) \<Rightarrow> (nat \<Rightarrow> js_string) \<Rightarrow> nat \<Rightarrow> json \<Rightarrow> json list option \<times> nat" where
  "raw_map coerced uuid n (JArr xs) = map_unique_id coerced uuid n xs"
| "raw_map coerced uuid n v = (None, n)"

text \<open>
  A record of the declared type as the JSON object the parser yields for it, the
  identifier listed last.
\<close>

fun match_type_text :: "match_type \<Rightarrow> js_string" where
  "match_type_text Texto = js ''Texto''"
| "match_type_text Melodia = js ''Melodia''"
| "match_type_text Contexto = js ''Contexto''"

definition song_json :: "Song \<Rightarrow> json" where
  "song_json r =
     JObj ([(js ''titulo'', JStr (titulo r)),
            (js ''artista'', JStr (artista r)),
            (js ''matchType'', JStr (match_type_text (matchType r))),
            (js ''confidence'', JNum (Finite (confidence r)))]
           @ (case description r of None \<Rightarrow> [] | Some d \<Rightarrow> [(js ''description'', JStr d)])
           @ (case id' r of None \<Rightarrow> [] | Some i \<Rightarrow> [(js ''id'', JStr i)]))"

definition validation_message :: js_string where
  "validation_message = js ''Please describe a song or record audio first.''"

text \<open>The state set in the \<open>catch\<close> branch of \<open>handleSearch\<close>.\<close>

definition catch_state :: "js_error \<Rightarrow> SearchState" where
  "catch_state err =
     \<lparr>isLoading = False,
      error = or_else (Some (message err)) (Some (js ''An unexpected error occurred.'')),
      results = []\<rparr>"

text \<open>
  \<open>handleSearch\<close>, from the click to its last \<open>setState\<close>.  Between the two the
  component shows the state \<open>loading\<close> below.
\<close>

definition loading :: SearchState where
  "loading = \<lparr>isLoading = True, error = None, results = []\<rparr>"

definition handleSearch :: "platform \<Rightarrow> App \<times> world \<Rightarrow> App \<times> world" where
  "handleSearch P aw =
     (let (a, w) = aw in
      if \<not> truthy (Some (trim (searchText a))) \<and> audioData a = None
      then (a\<lparr>state := (state a)\<lparr>error := Some validation_message\<rparr>\<rparr>, w)
      else
        (let a1 = a\<lparr>state := loading, activeTab := search_tab\<rparr>;
             (r, reqs) = searchMusic (generateContent P) (JSON_parse P) (searchText a)
                           (or_else (map_option base64 (audioData a)) None)
                           (map_option mimeType (audioData a));
             w1 = w\<lparr>remote_calls := remote_calls w @ reqs\<rparr>
         in (case r of
               Inl err \<Rightarrow> (a1\<lparr>state := catch_state err\<rparr>, w1)
             | Inr rawResults \<Rightarrow>
                 (case raw_map (coerced_gt_5 P) (randomUUID P) (uuids_drawn w1) rawResults of
                    (None, n) \<Rightarrow>
                      (a1\<lparr>state := catch_state (Error (not_a_function P))\<rparr>,
                       w1\<lparr>uuids_drawn := n\<rparr>)
                  | (Some res, n) \<Rightarrow>
                      (a1\<lparr>state := \<lparr>isLoading = False, error = None, results = res\<rparr>\<rparr>,
                       w1\<lparr>uuids_drawn := n\<rparr>)))))"

text \<open>The request \<open>handleSearch\<close> passes on, by the arguments of its call of \<open>searchMusic\<close>.\<close>

definition search_request :: "App \<Rightarrow> request" where
  "search_request a =
     build_request (searchText a) (or_else (map_option base64 (audioData a)) None)
       (map_option mimeType (audioData a))"

section \<open>components/AudioRecorder.tsx\<close>

text \<open>
  The component's state (\<open>status\<close>, \<open>timer\<close>), its three refs, and what it holds
  of the browser: the identifiers of the window's active intervals, the identifier the
  next \<open>setInterval\<close> returns (an integer above zero), the streams whose
  \<open>MediaRecorder\<close> is recording, the number of calls of the \<open>onClear\<close> prop, and
  the number of calls of \<open>getUserMedia\<close> that have not settled yet.
  A media recorder is identified by the stream it was created on; a chunk is a list of
  bytes.  \<open>timer\<close> is a JavaScript number that only ever holds a count of seconds.
\<close>

type_synonym stream = nat
type_synonym blob = "8 word list"

record Recorder =
  status :: RecorderStatus
  timer :: nat
  mediaRecorderRef :: "stream option"
  chunksRef :: "blob list"
  timerIntervalRef :: "nat option"
  intervals :: "nat list"
  next_interval :: nat
  capturing :: "stream list"
  onClear_calls :: nat
  pending :: nat

definition mounted :: Recorder where
  "mounted = \<lparr>status = IDLE, timer = 0, mediaRecorderRef = None, chunksRef = [],
     timerIntervalRef = None, intervals = [], next_interval = 1, capturing = [],
     onClear_calls = 0, pending = 0\<rparr>"

text \<open>
  \<open>startRecording\<close> is asynchronous.  Up to its \<open>await\<close> it calls
  \<open>getUserMedia\<close> and returns, changing nothing of the component.
\<close>

definition getUserMedia :: "Recorder \<Rightarrow> Recorder" where
  "getUserMedia s = s\<lparr>pending := Suc (pending s)\<rparr>"

text \<open>
  \<open>startRecording\<close>, from the point where \<open>getUserMedia\<close> settles: rejected
  (\<open>None\<close>, the \<open>catch\<close> branch alerts and changes nothing) or resolved with a
  stream.  It runs in the state the component is in by then, and tests neither the
  status nor the refs.  Constructing and starting the \<open>MediaRecorder\<close> are taken to
  succeed.
\<close>

definition startRecording :: "stream option \<Rightarrow> Recorder \<Rightarrow> Recorder" where
  "startRecording granted s =
     (case granted of
        None \<Rightarrow> s
      | Some stream \<Rightarrow>
          s\<lparr>mediaRecorderRef := Some stream,
            chunksRef := [],
            capturing := capturing s @ [stream],
            status := RECORDING,
            timer := 0,
            timerIntervalRef := Some (next_interval s),
            intervals := intervals s @ [next_interval s],
            next_interval := Suc (next_interval s)\<rparr>)"

text \<open>\<open>clearInterval\<close> behind the test \<open>if (timerIntervalRef.current)\<close>.\<close>

definition clear_timer :: "Recorder \<Rightarrow> nat list" where
  "clear_timer s =
     (case timerIntervalRef s of
        None \<Rightarrow> intervals s
      | Some i \<Rightarrow> if i \<noteq> 0 then removeAll i (intervals s) else intervals s)"

definition stopRecording :: "Recorder \<Rightarrow> Recorder" where
  "stopRecording s =
     (if mediaRecorderRef s \<noteq> None \<and> status s = RECORDING
      then s\<lparr>capturing := removeAll (the (mediaRecorderRef s)) (capturing s),
             status := FINISHED,
             intervals := clear_timer s\<rparr>
      else s)"

definition clearRecording :: "Recorder \<Rightarrow> Recorder" where
  "clearRecording s =
     s\<lparr>status := IDLE, timer := 0, chunksRef := [], onClear_calls := Suc (onClear_calls s)\<rparr>"

text \<open>The callback of interval \<open>i\<close>; it runs only while the interval is active.\<close>

definition tick :: "nat \<Rightarrow> Recorder \<Rightarrow> Recorder" where
  "tick i s = (if i \<in> set (intervals s) then s\<lparr>timer := timer s + 1\<rparr> else s)"

definition ondataavailable :: "blob \<Rightarrow> Recorder \<Rightarrow> Recorder" where
  "ondataavailable e s = (if length e > 0 then s\<lparr>chunksRef := chunksRef s @ [e]\<rparr> else s)"

text \<open>
  What can happen to a mounted recorder: a click on one of its three buttons, a call of
  \<open>getUserMedia\<close> settling with its outcome, a run of the callback of an interval,
  and a chunk from the media recorder.
\<close>

datatype event =
    Click_mic
  | Permission_settles "stream option"
  | Click_stop
  | Click_discard
  | Interval_fires nat
  | Data_available blob

text \<open>
  The component renders the microphone button only while \<open>status\<close> is \<open>IDLE\<close>, the
  stop button only while it is \<open>RECORDING\<close> and the discard button only while it is
  \<open>FINISHED\<close>.  The microphone button stays rendered while a permission request is
  pending, since the status is still \<open>IDLE\<close>.  A request can settle when one is
  pending.
\<close>

fun possible :: "Recorder \<Rightarrow> event \<Rightarrow> bool" where
  "possible s Click_mic = (status s = IDLE)"
| "possible s (Permission_settles granted) = (0 < pending s)"
| "possible s Click_stop = (status s = RECORDING)"
| "possible s Click_discard = (status s = FINISHED)"
| "possible s (Interval_fires i) = True"
| "possible s (Data_available e) = True"

fun handler :: "event \<Rightarrow> Recorder \<Rightarrow> Recorder" where
  "handler Click_mic s = getUserMedia s"
| "handler (Permission_settles granted) s = startRecording granted (s\<lparr>pending := pending s - 1\<rparr>)"
| "handler Click_stop s = stopRecording s"
| "handler Click_discard s = clearRecording s"
| "handler (Interval_fires i) s = tick i s"
| "handler (Data_available e) s = ondataavailable e s"

text \<open>One step of the component, \<open>None\<close> for an event that cannot happen in the state.\<close>

definition ui_step :: "Recorder \<Rightarrow> event \<Rightarrow> Recorder option" where
  "ui_step s e = (if possible s e then Some (handler e s) else None)"

fun run :: "Recorder \<Rightarrow> event list \<Rightarrow> Recorder option" where
  "run s [] = Some s"
| "run s (e # es) = (case ui_step s e of None \<Rightarrow> None | Some t \<Rightarrow> run t es)"

text \<open>
  What holds of every run: while the recorder is recording, a media recorder is in place
  and the interval held in \<open>timerIntervalRef\<close> is active.
\<close>

definition timer_bound :: "Recorder \<Rightarrow> bool" where
  "timer_bound s \<longleftrightarrow>
     0 < next_interval s
     \<and> (status s = RECORDING \<longrightarrow>
          mediaRecorderRef s \<noteq> None
          \<and> (\<exists>i. 0 < i \<and> timerIntervalRef s = Some i \<and> i \<in> set (intervals s)))"

section \<open>Concrete inputs for the examples\<close>

text \<open>A recorder after a granted start, and after the stop that follows.\<close>

definition recording_1 :: Recorder where
  "recording_1 = startRecording (Some 7) mounted"

definition finished_1 :: Recorder where
  "finished_1 = stopRecording recording_1"

text \<open>Two songs.\<close>

definition song_a :: Song where
  "song_a = \<lparr>id' = Some (js ''song-a-0001''), titulo = js ''Time'', artista = js ''Hans Zimmer'',
     matchType = Contexto, confidence = 90, description = None\<rparr>"

definition song_b :: Song where
  "song_b = \<lparr>id' = Some (js ''song-b-0002''), titulo = js ''Hello'', artista = js ''Adele'',
     matchType = Texto, confidence = 75, description = None\<rparr>"

text \<open>
  Response texts and what \<open>JSON.parse\<close> yields for them: one well-formed record, an
  array that does not follow the schema (an object without most of the required
  fields, and a number), and an array with a \<open>null\<close> element.
\<close>

definition one_song_json :: js_string where
  \<open>one_song_json =
     js ''[{"id":"1","titulo":"Time","artista":"Hans Zimmer","matchType":"Contexto","confidence":90}]''\<close>

definition one_song_parsed :: json where
  "one_song_parsed =
     JArr [JObj [(js ''id'', JStr (js ''1'')), (js ''titulo'', JStr (js ''Time'')),
                 (js ''artista'', JStr (js ''Hans Zimmer'')),
                 (js ''matchType'', JStr (js ''Contexto'')),
                 (js ''confidence'', JNum (Finite 90))]]"

definition mismatched_json :: js_string where
  \<open>mismatched_json = js ''[{"titulo":"Time"},7]''\<close>

definition mismatched_parsed :: json where
  "mismatched_parsed = JArr [JObj [(js ''titulo'', JStr (js ''Time''))], JNum (Finite 7)]"

definition with_null_json :: js_string where
  \<open>with_null_json = js ''[{"titulo":"Time"},null]''\<close>

definition with_null_parsed :: json where
  "with_null_parsed = JArr [JObj [(js ''titulo'', JStr (js ''Time''))], JNull]"

text \<open>
  A parser that agrees with \<open>JSON.parse\<close> on the texts the examples use: the text
  \<open>null\<close>, the three arrays above, and texts that are not JSON.
\<close>

definition parse_sample :: json_parse where
  "parse_sample s =
     (if s = js ''null'' then Some JNull
      else if s = one_song_json then Some one_song_parsed
      else if s = mismatched_json then Some mismatched_parsed
      else if s = with_null_json then Some with_null_parsed
      else None)"

definition sample_uuid :: "nat \<Rightarrow> js_string" where
  "sample_uuid k =
     (if k = 0 then js ''3b241101-e2bb-4255-8caf-4136c566a962''
      else if k = 1 then js ''6fa459ea-ee8a-4ca4-894e-db77e160355e''
      else js ''9c5b94b1-35ad-49bb-b118-8e8fc24abf80'')"

text \<open>
  A platform whose remote call always has the given outcome.  The examples have no
  identifier that is an array or an object, so the comparison of such an operand is
  never reached; it is given the result it has for a plain object.
\<close>

definition sample_platform :: "js_error + js_string option \<Rightarrow> platform" where
  "sample_platform r =
     \<lparr>generateContent = (\<lambda>req. r), JSON_parse = parse_sample, randomUUID = sample_uuid,
      coerced_gt_5 = (\<lambda>v. Some False),
      not_a_function = js ''rawResults.map is not a function''\<rparr>"


definition transport_error :: js_error where
  "transport_error = Error (js ''fetch failed'')"

definition app_init :: App where
  "app_init = \<lparr>searchText = [], audioData = None, activeTab = search_tab,
     state = \<lparr>isLoading = False, error = None, results = []\<rparr>, favorites = []\<rparr>"

definition world_init :: world where
  "world_init = \<lparr>remote_calls = [], uuids_drawn = 0\<rparr>"

definition app_text :: App where
  "app_text = app_init\<lparr>searchText := js ''sad piano song from Inception''\<rparr>"

definition app_shown :: App where
  "app_shown = app_init\<lparr>searchText := js ''  '',
     state := \<lparr>isLoading = False, error = None,
                results = [song_json song_a, song_json song_b]\<rparr>\<rparr>"

section \<open>Favorites: toggling\<close>

lemma toggleFavorite_present:
  "list_ex (\<lambda>f. id' f = id' song) S \<Longrightarrow>
     toggleFavorite song S = filter (\<lambda>f. id' f \<noteq> id' song) S"
  by (simp add: toggleFavorite_def)

lemma toggleFavorite_absent:
  "\<not> list_ex (\<lambda>f. id' f = id' song) S \<Longrightarrow> toggleFavorite song S = S @ [song]"
  by (simp add: toggleFavorite_def)

lemma filter_absent:
  "\<not> list_ex (\<lambda>f. id' f = id' song) S \<Longrightarrow> filter (\<lambda>f. id' f \<noteq> id' song) S = S"
  by (induction S) auto

lemma song_a_b_ids: "id' song_a \<noteq> id' song_b"
  by (simp add: song_a_def song_b_def js_def)

text \<open>
  C5, as stated: toggling the same song twice gives back the starting list.  It fails
  when the song is in the list and is not its last entry: the first toggle removes
  it, the second appends it at the end.
\<close>

theorem toggle_twice_counterexample:
  "toggleFavorite song_a (toggleFavorite song_a [song_a, song_b]) \<noteq> [song_a, song_b]"
proof -
  have "toggleFavorite song_a [song_a, song_b] = [song_b]"
    using song_a_b_ids by (simp add: toggleFavorite_def)
  moreover have "toggleFavorite song_a [song_b] = [song_b, song_a]"
    using song_a_b_ids by (simp add: toggleFavorite_def)
  moreover have "song_b \<noteq> song_a"
    using song_a_b_ids by auto
  ultimately show ?thesis by simp
qed

text \<open>
  C5, amended.  A single toggle removes every entry with the song's identifier when
  there is one, and otherwise appends the song at the end, the other entries keeping
  their order.  Toggling twice gives back the starting list when no entry has the
  song's identifier; when one has, it gives the list without those entries followed by
  the song.  In both cases the set of identifiers in the list is the one it started with.
\<close>

theorem toggle_twice:
  "(list_ex (\<lambda>f. id' f = id' song) S \<longrightarrow>
      toggleFavorite song S = filter (\<lambda>f. id' f \<noteq> id' song) S \<and>
      toggleFavorite song (toggleFavorite song S) = filter (\<lambda>f. id' f \<noteq> id' song) S @ [song])
   \<and> (\<not> list_ex (\<lambda>f. id' f = id' song) S \<longrightarrow>
      toggleFavorite song S = S @ [song] \<and>
      toggleFavorite song (toggleFavorite song S) = S)
   \<and> id' ` set (toggleFavorite song (toggleFavorite song S)) = id' ` set S"
proof (cases "list_ex (\<lambda>f. id' f = id' song) S")
  case True
  let ?T = "filter (\<lambda>f. id' f \<noteq> id' song) S"
  have one: "toggleFavorite song S = ?T"
    using True by (rule toggleFavorite_present)
  have "\<not> list_ex (\<lambda>f. id' f = id' song) ?T"
    by (simp add: list_ex_iff)
  then have two: "toggleFavorite song ?T = ?T @ [song]"
    by (rule toggleFavorite_absent)
  have ids: "id' ` set (?T @ [song]) = id' ` set S"
  proof -
    obtain f where "f \<in> set S" and "id' f = id' song"
      using True by (auto simp: list_ex_iff)
    then have "id' song \<in> id' ` set S"
      by (metis imageI)
    then show ?thesis by auto
  qed
  show ?thesis using True one two ids by simp
next
  case False
  have one: "toggleFavorite song S = S @ [song]"
    using False by (rule toggleFavorite_absent)
  have "list_ex (\<lambda>f. id' f = id' song) (S @ [song])"
    by (simp add: list_ex_iff)
  then have "toggleFavorite song (S @ [song]) = filter (\<lambda>f. id' f \<noteq> id' song) (S @ [song])"
    by (rule toggleFavorite_present)
  also have "\<dots> = S"
    using False by (simp add: filter_absent)
  finally have two: "toggleFavorite song (S @ [song]) = S" .
  show ?thesis using False one two by simp
qed

theorem toggle_twice_witness:
  "list_ex (\<lambda>f. id' f = id' song_a) [song_a, song_b]
   \<and> toggleFavorite song_a [song_a, song_b] = [song_b]
   \<and> toggleFavorite song_a (toggleFavorite song_a [song_a, song_b]) = [song_b, song_a]
   \<and> \<not> list_ex (\<lambda>f. id' f = id' song_a) [song_b]
   \<and> toggleFavorite song_a [song_b] = [song_b, song_a]
   \<and> toggleFavorite song_a (toggleFavorite song_a [song_b]) = [song_b]"
proof -
  have p: "list_ex (\<lambda>f. id' f = id' song_a) [song_a, song_b]"
    by simp
  have q: "\<not> list_ex (\<lambda>f. id' f = id' song_a) [song_b]"
    using song_a_b_ids by auto
  have f1: "filter (\<lambda>f. id' f \<noteq> id' song_a) [song_a, song_b] = [song_b]"
    using song_a_b_ids by auto
  have a: "toggleFavorite song_a [song_a, song_b] = filter (\<lambda>f. id' f \<noteq> id' song_a) [song_a, song_b]"
    and b: "toggleFavorite song_a (toggleFavorite song_a [song_a, song_b])
            = filter (\<lambda>f. id' f \<noteq> id' song_a) [song_a, song_b] @ [song_a]"
    using toggle_twice [of song_a "[song_a, song_b]"] p by blast+
  have c: "toggleFavorite song_a [song_b] = [song_b] @ [song_a]"
    and d: "toggleFavorite song_a (toggleFavorite song_a [song_b]) = [song_b]"
    using toggle_twice [of song_a "[song_b]"] q by blast+
  have "toggleFavorite song_a [song_a, song_b] = [song_b]"
    using a f1 by (rule trans)
  moreover have "toggleFavorite song_a (toggleFavorite song_a [song_a, song_b]) = [song_b, song_a]"
    using b by (simp only: f1 append.simps)
  moreover have "toggleFavorite song_a [song_b] = [song_b, song_a]"
    using c by (simp only: append.simps)
  moreover note d
  ultimately show ?thesis using p q by blast
qed

section \<open>Favorites: loading\<close>

text \<open>
  What the initialiser catches: a read that throws, an absent key, an empty stored
  text and a stored text that is not JSON all give the empty list.  A stored text that
  is JSON is returned as parsed.
\<close>

lemma load_favorites_caught:
  "load_favorites parse (Inl e) = JArr []
   \<and> load_favorites parse (Inr None) = JArr []
   \<and> load_favorites parse (Inr (Some [])) = JArr []
   \<and> (parse s = None \<longrightarrow> load_favorites parse (Inr (Some s)) = JArr [])
   \<and> (s \<noteq> [] \<and> parse s = Some v \<longrightarrow> load_favorites parse (Inr (Some s)) = v)"
  by (simp add: load_favorites_def)

text \<open>
  C9: whatever the stored value, corrupt ones included, loading gives the empty list
  and never crashes startup.  The code catches what throws and misses the stored text
  that is JSON but not a list: for the stored text \<open>null\<close> the favorites become
  \<open>null\<close>, and the first render throws when it reads their length.
\<close>

theorem load_favorites_null:
  "load_favorites parse_sample (Inr (Some (js ''null''))) = JNull
   \<and> load_favorites parse_sample (Inr (Some (js ''null''))) \<noteq> JArr []
   \<and> favorites_length (load_favorites parse_sample (Inr (Some (js ''null'')))) = Inl ()"
  by (simp add: load_favorites_def favorites_length_def parse_sample_def js_def)

section \<open>The request built by searchMusic\<close>

lemma prompts_distinct:
  "prompt_audio_and_text t1 \<noteq> prompt_audio_only"
  "prompt_audio_and_text t1 \<noteq> prompt_text_only t2"
  "prompt_audio_only \<noteq> prompt_text_only t2"
  by (simp_all add: prompt_audio_and_text_def prompt_audio_only_def prompt_text_only_def js_def)

text \<open>
  C7.  A payload is present when \<open>audioBase64\<close> is a non-empty string, a text when it
  is not the empty string.  With both, the request carries the audio-and-text prompt;
  with a payload and the empty text, the audio-only prompt; without a payload, the
  text-only prompt and no audio part.  The three prompts differ from one another
  whatever the texts, so each call builds exactly one of them, and \<open>searchMusic\<close>
  sends exactly that request.  With a payload and no media type given, the audio part
  is tagged \<open>audio/webm\<close>.
\<close>

theorem request_shapes:
  "(truthy a \<and> text \<noteq> [] \<longrightarrow>
      parts (build_request text a m) =
        [text_part (prompt_audio_and_text text),
         inlineData (case m of None \<Rightarrow> js ''audio/webm'' | Some t \<Rightarrow> t) (the a)])
   \<and> (truthy a \<and> text = [] \<longrightarrow>
      parts (build_request text a m) =
        [text_part prompt_audio_only,
         inlineData (case m of None \<Rightarrow> js ''audio/webm'' | Some t \<Rightarrow> t) (the a)])
   \<and> (\<not> truthy a \<longrightarrow> parts (build_request text a m) = [text_part (prompt_text_only text)])
   \<and> (truthy a \<longrightarrow> part_mimeType (parts (build_request text a None) ! 1) = js ''audio/webm'')
   \<and> prompt_audio_and_text t1 \<noteq> prompt_audio_only
   \<and> prompt_audio_and_text t1 \<noteq> prompt_text_only t2
   \<and> prompt_audio_only \<noteq> prompt_text_only t2
   \<and> snd (searchMusic g p text a m) = [build_request text a m]"
  using prompts_distinct
  by (simp add: build_request_def searchMusic_def Let_def)

theorem request_shapes_witness:
  "truthy (Some (js ''AAAA''))
   \<and> parts (build_request [] (Some (js ''AAAA'')) (Some (js ''audio/webm'')))
       = [text_part prompt_audio_only, inlineData (js ''audio/webm'') (js ''AAAA'')]
   \<and> parts (build_request (js ''la la'') (Some (js ''AAAA'')) None)
       = [text_part (prompt_audio_and_text (js ''la la'')), inlineData (js ''audio/webm'') (js ''AAAA'')]
   \<and> \<not> truthy None
   \<and> parts (build_request (js ''la la'') None None) = [text_part (prompt_text_only (js ''la la''))]"
proof -
  have t: "truthy (Some (js ''AAAA''))" and n: "js ''la la'' \<noteq> []"
    by (simp_all add: js_def)
  have "parts (build_request [] (Some (js ''AAAA'')) (Some (js ''audio/webm'')))
       = [text_part prompt_audio_only, inlineData (js ''audio/webm'') (js ''AAAA'')]"
    using request_shapes [of "Some (js ''AAAA'')" "[]" "Some (js ''audio/webm'')"] t by simp
  moreover have "parts (build_request (js ''la la'') (Some (js ''AAAA'')) None)
       = [text_part (prompt_audio_and_text (js ''la la'')), inlineData (js ''audio/webm'') (js ''AAAA'')]"
    using request_shapes [of "Some (js ''AAAA'')" "js ''la la''" None] t n by simp
  moreover have "parts (build_request (js ''la la'') None None) = [text_part (prompt_text_only (js ''la la''))]"
    using request_shapes [of None "js ''la la''" None] by simp
  ultimately show ?thesis using t by simp
qed

section \<open>Identifier normalisation\<close>
















text \<open>
  On the JSON objects of records of the declared type, the map of \<open>handleSearch\<close>
  is \<open>normalize_ids\<close>: it never throws there, and it yields the objects of the
  normalised records.
\<close>

lemma song_json_props:
  "own_properties (song_json r) =
     [(js ''titulo'', JStr (titulo r)),
      (js ''artista'', JStr (artista r)),
      (js ''matchType'', JStr (match_type_text (matchType r))),
      (js ''confidence'', JNum (Finite (confidence r)))]
     @ (case description r of None \<Rightarrow> [] | Some d \<Rightarrow> [(js ''description'', JStr d)])
     @ (case id' r of None \<Rightarrow> [] | Some i \<Rightarrow> [(js ''id'', JStr i)])"
  by (simp add: song_json_def)

lemma song_json_id: "get_id (song_json r) = map_option JStr (id' r)"
  by (cases "description r"; cases "id' r") (simp_all add: song_json_def js_def)

lemma song_json_keeps: "keeps_json coerced (song_json r) = Some (keeps_id r)"
  by (cases "id' r") (auto simp: keeps_json_def song_json_id keeps_id_def)

lemma song_json_set_id:
  "JObj (set_property (js ''id'') (JStr i) (own_properties (song_json r)))
     = song_json (r\<lparr>id' := Some i\<rparr>)"
  by (cases "description r"; cases "id' r") (simp_all add: song_json_def js_def)

lemma unique_id_song:
  "unique_id coerced uuid n (song_json r) =
     (if keeps_id r then Some (song_json r, n)
      else Some (song_json (r\<lparr>id' := Some (uuid n)\<rparr>), Suc n))"
proof (cases "keeps_id r")
  case True
  then obtain i where i: "id' r = Some i"
    by (cases "id' r") (auto simp: keeps_id_def)
  have same: "r\<lparr>id' := Some i\<rparr> = r"
    unfolding i [symmetric] by simp
  have "JObj (set_property (js ''id'') (the (get_id (song_json r))) (own_properties (song_json r)))
      = song_json r"
    using song_json_set_id [of i r] i by (simp add: song_json_id same)
  with True show ?thesis
    by (simp add: unique_id_def song_json_keeps) (simp add: song_json_def)
next
  case False
  then show ?thesis
    by (simp add: unique_id_def song_json_keeps song_json_set_id) (simp add: song_json_def)
qed

lemma map_unique_id_songs:
  "map_unique_id coerced uuid n (map song_json rs) =
     (Some (map song_json (fst (normalize_ids uuid n rs))), snd (normalize_ids uuid n rs))"
proof (induction rs arbitrary: n)
  case Nil
  then show ?case by simp
next
  case (Cons r rs)
  show ?case
  proof (cases "keeps_id r")
    case True
    then show ?thesis
      using Cons.IH [of n] by (simp add: unique_id_song case_prod_beta)
  next
    case False
    then show ?thesis
      using Cons.IH [of "Suc n"] by (simp add: unique_id_song case_prod_beta)
  qed
qed

section \<open>handleSearch\<close>

lemma trim_empty: "trim s = [] \<longleftrightarrow> (\<forall>c\<in>set s. is_white_space c)"
proof
  assume "trim s = []"
  then have all: "\<forall>x\<in>set (dropWhile is_white_space s). is_white_space x"
    by (simp add: trim_def dropWhile_eq_Nil_conv)
  have "dropWhile is_white_space s = []"
  proof (rule ccontr)
    assume ne: "dropWhile is_white_space s \<noteq> []"
    then have "\<not> is_white_space (hd (dropWhile is_white_space s))"
      by (rule hd_dropWhile)
    moreover have "hd (dropWhile is_white_space s) \<in> set (dropWhile is_white_space s)"
      using ne by simp
    ultimately show False using all by blast
  qed
  then show "\<forall>c\<in>set s. is_white_space c"
    by (simp add: dropWhile_eq_Nil_conv)
next
  assume "\<forall>c\<in>set s. is_white_space c"
  then show "trim s = []"
    by (auto simp: trim_def dest: set_dropWhileD)
qed

lemma handleSearch_invalid:
  "(\<forall>c\<in>set (searchText a). is_white_space c) \<Longrightarrow> audioData a = None \<Longrightarrow>
   handleSearch P (a, w) = (a\<lparr>state := (state a)\<lparr>error := Some validation_message\<rparr>\<rparr>, w)"
  by (simp add: handleSearch_def trim_empty)

lemma handleSearch_valid:
  "\<not> ((\<forall>c\<in>set (searchText a). is_white_space c) \<and> audioData a = None) \<Longrightarrow>
   handleSearch P (a, w) =
     (let a1 = a\<lparr>state := loading, activeTab := search_tab\<rparr>;
          w1 = w\<lparr>remote_calls := remote_calls w @ [search_request a]\<rparr>
      in case generateContent P (search_request a) of
           Inl e \<Rightarrow> (a1\<lparr>state := catch_state search_failed\<rparr>, w1)
         | Inr t \<Rightarrow>
            if \<not> truthy t then (a1\<lparr>state := \<lparr>isLoading = False, error = None, results = []\<rparr>\<rparr>, w1)
            else (case JSON_parse P (the t) of
                    None \<Rightarrow> (a1\<lparr>state := catch_state search_failed\<rparr>, w1)
                  | Some v \<Rightarrow>
                      (case fst (raw_map (coerced_gt_5 P) (randomUUID P) (uuids_drawn w) v) of
                         None \<Rightarrow>
                           (a1\<lparr>state := catch_state (Error (not_a_function P))\<rparr>,
                            w1\<lparr>uuids_drawn :=
                                 snd (raw_map (coerced_gt_5 P) (randomUUID P) (uuids_drawn w) v)\<rparr>)
                       | Some res \<Rightarrow>
                           (a1\<lparr>state := \<lparr>isLoading = False, error = None, results = res\<rparr>\<rparr>,
                            w1\<lparr>uuids_drawn :=
                                 snd (raw_map (coerced_gt_5 P) (randomUUID P) (uuids_drawn w) v)\<rparr>))))"
  unfolding handleSearch_def searchMusic_def search_request_def
  by (auto simp: trim_empty Let_def split: sum.splits option.splits prod.splits)

lemma raw_map_not_array: "\<forall>xs. v \<noteq> JArr xs \<Longrightarrow> raw_map coerced uuid n v = (None, n)"
  by (cases v) simp_all

lemma catch_state_search_failed:
  "catch_state search_failed =
     \<lparr>isLoading = False, error = Some (js ''Failed to search for music. Please try again.''),
      results = []\<rparr>"
  by (simp add: catch_state_def search_failed_def or_else_def js_def)

lemma catch_state_error:
  "isLoading (catch_state e) = False \<and> error (catch_state e) \<noteq> None \<and> results (catch_state e) = []"
  by (simp add: catch_state_def or_else_def)

lemma app_text_valid:
  "\<not> ((\<forall>c\<in>set (searchText app_text). is_white_space c) \<and> audioData app_text = None)"
  by (simp add: app_text_def app_init_def js_def is_white_space_def)

lemma handleSearch_pair:
  "handleSearch P aw = (fst (handleSearch P aw), snd (handleSearch P aw))"
  by simp

text \<open>The map over the parsed array: where it throws and where it cannot.\<close>

lemma unique_id_null: "unique_id coerced uuid n JNull = None"
  by (simp add: unique_id_def)

lemma map_unique_id_fst_Cons:
  "fst (map_unique_id coerced uuid n (r # rs)) =
     (case unique_id coerced uuid n r of
        None \<Rightarrow> None
      | Some (r', n') \<Rightarrow>
          (case fst (map_unique_id coerced uuid n' rs) of
             None \<Rightarrow> None
           | Some out \<Rightarrow> Some (r' # out)))"
  by (simp split: option.splits prod.splits)

lemma map_unique_id_null:
  "JNull \<in> set xs \<Longrightarrow> fst (map_unique_id coerced uuid n xs) = None"
proof (induction xs arbitrary: n)
  case Nil
  then show ?case by simp
next
  case (Cons r rs)
  show ?case
  proof (cases "r = JNull")
    case True
    then show ?thesis
      by (simp add: map_unique_id_fst_Cons unique_id_null del: map_unique_id.simps(2))
  next
    case False
    with Cons.prems have "JNull \<in> set rs" by auto
    then have "fst (map_unique_id coerced uuid m rs) = None" for m
      by (rule Cons.IH)
    then show ?thesis
      by (simp add: map_unique_id_fst_Cons del: map_unique_id.simps(2) split: option.splits)
  qed
qed

lemma keeps_json_plain:
  "\<forall>fs. get_id r \<noteq> Some (JObj fs) \<Longrightarrow> keeps_json coerced r \<noteq> None"
proof (cases "get_id r")
  case None
  then show ?thesis by (simp add: keeps_json_def)
next
  case (Some v)
  assume "\<forall>fs. get_id r \<noteq> Some (JObj fs)"
  with Some have "\<forall>fs. v \<noteq> JObj fs" by simp
  then obtain b where "greater_than_5 coerced (get_length v) = Some b"
    by (cases v) auto
  with Some show ?thesis by (auto simp: keeps_json_def)
qed

lemma unique_id_plain:
  assumes "r \<noteq> JNull" and "\<forall>fs. get_id r \<noteq> Some (JObj fs)"
  shows "\<exists>v m. unique_id coerced uuid n r
           = Some (JObj (set_property (js ''id'') v (own_properties r)), m)"
proof -
  obtain b where b: "keeps_json coerced r = Some b"
    using keeps_json_plain [OF assms(2)] by blast
  show ?thesis
  proof (cases b)
    case True
    with b assms(1) have "unique_id coerced uuid n r
        = Some (JObj (set_property (js ''id'') (the (get_id r)) (own_properties r)), n)"
      by (simp add: unique_id_def)
    then show ?thesis by blast
  next
    case False
    with b assms(1) have "unique_id coerced uuid n r
        = Some (JObj (set_property (js ''id'') (JStr (uuid n)) (own_properties r)), Suc n)"
      by (simp add: unique_id_def)
    then show ?thesis by blast
  qed
qed

lemma unique_id_shape:
  "unique_id coerced uuid n r = Some (r', m) \<Longrightarrow>
   \<exists>v. r' = JObj (set_property (js ''id'') v (own_properties r))"
  by (auto simp: unique_id_def split: if_splits option.splits bool.splits)

lemma map_unique_id_shape:
  "fst (map_unique_id coerced uuid n xs) = Some out \<Longrightarrow>
   length out = length xs
   \<and> (\<forall>i<length xs. \<exists>v. out ! i = JObj (set_property (js ''id'') v (own_properties (xs ! i))))"
proof (induction xs arbitrary: n out)
  case Nil
  then show ?case by simp
next
  case (Cons r rs)
  from Cons.prems obtain r' n' out' where
    u: "unique_id coerced uuid n r = Some (r', n')"
    and m: "fst (map_unique_id coerced uuid n' rs) = Some out'"
    and o: "out = r' # out'"
    by (auto simp: map_unique_id_fst_Cons simp del: map_unique_id.simps(2)
        split: option.splits prod.splits)
  from Cons.IH [OF m] have len: "length out' = length rs"
    and nth: "\<forall>i<length rs. \<exists>v. out' ! i = JObj (set_property (js ''id'') v (own_properties (rs ! i)))"
    by simp_all
  from unique_id_shape [OF u] obtain v0 where
    r': "r' = JObj (set_property (js ''id'') v0 (own_properties r))" ..
  have "\<exists>v. out ! i = JObj (set_property (js ''id'') v (own_properties ((r # rs) ! i)))"
    if "i < length (r # rs)" for i
  proof (cases i)
    case 0
    then show ?thesis using o r' by auto
  next
    case (Suc j)
    with that have "j < length rs" by simp
    with nth Suc o show ?thesis by simp
  qed
  then show ?case using len o by simp
qed

lemma map_unique_id_plain:
  "\<forall>x\<in>set xs. x \<noteq> JNull \<and> (\<forall>fs. get_id x \<noteq> Some (JObj fs)) \<Longrightarrow>
   fst (map_unique_id coerced uuid n xs) \<noteq> None"
proof (induction xs arbitrary: n)
  case Nil
  then show ?case by simp
next
  case (Cons r rs)
  from Cons.prems have "r \<noteq> JNull" and "\<forall>fs. get_id r \<noteq> Some (JObj fs)"
    by simp_all
  then obtain v m where u: "unique_id coerced uuid n r
      = Some (JObj (set_property (js ''id'') v (own_properties r)), m)"
    using unique_id_plain by blast
  from Cons.prems have "\<forall>x\<in>set rs. x \<noteq> JNull \<and> (\<forall>fs. get_id x \<noteq> Some (JObj fs))"
    by simp
  then have "fst (map_unique_id coerced uuid m rs) \<noteq> None"
    by (rule Cons.IH)
  with u show ?case
    by (auto simp: map_unique_id_fst_Cons simp del: map_unique_id.simps(2))
qed

text \<open>The three sample arrays under the map.\<close>

lemma one_song_mapped:
  "map_unique_id (\<lambda>v. Some False) sample_uuid 0
       [JObj [(js ''id'', JStr (js ''1'')), (js ''titulo'', JStr (js ''Time'')),
              (js ''artista'', JStr (js ''Hans Zimmer'')),
              (js ''matchType'', JStr (js ''Contexto'')),
              (js ''confidence'', JNum (Finite 90))]]
     = (Some [JObj [(js ''id'', JStr (sample_uuid 0)), (js ''titulo'', JStr (js ''Time'')),
                    (js ''artista'', JStr (js ''Hans Zimmer'')),
                    (js ''matchType'', JStr (js ''Contexto'')),
                    (js ''confidence'', JNum (Finite 90))]], 1)"
  by (simp add: unique_id_def keeps_json_def js_def)

lemma mismatched_mapped:
  "map_unique_id (\<lambda>v. Some False) sample_uuid 0
       [JObj [(js ''titulo'', JStr (js ''Time''))], JNum (Finite 7)]
     = (Some [JObj [(js ''titulo'', JStr (js ''Time'')), (js ''id'', JStr (sample_uuid 0))],
              JObj [(js ''id'', JStr (sample_uuid 1))]], 2)"
  by (simp add: unique_id_def keeps_json_def js_def)

lemma with_null_mapped:
  "map_unique_id (\<lambda>v. Some False) sample_uuid 0
       [JObj [(js ''titulo'', JStr (js ''Time''))], JNull] = (None, 1)"
  by (simp add: unique_id_def keeps_json_def js_def)

lemma sample_parses:
  "parse_sample one_song_json = Some one_song_parsed"
  "parse_sample mismatched_json = Some mismatched_parsed"
  "parse_sample with_null_json = Some with_null_parsed"
  "one_song_json \<noteq> []" "mismatched_json \<noteq> []" "with_null_json \<noteq> []"
  by (simp_all add: parse_sample_def one_song_json_def mismatched_json_def with_null_json_def js_def)

text \<open>
  C3, as stated: every failure of the remote call, an empty response body and a
  response that does not follow the schema included, ends in an error state.  A
  response without text makes \<open>searchMusic\<close> return the empty list, and the search
  ends without an error.  A response that is an array of an object without the required
  fields and a number ends without an error too, with both as results.
\<close>

theorem search_failure_counterexample:
  "generateContent (sample_platform (Inr None)) (search_request app_text) = Inr None
   \<and> state (fst (handleSearch (sample_platform (Inr None)) (app_text, world_init)))
       = \<lparr>isLoading = False, error = None, results = []\<rparr>
   \<and> generateContent (sample_platform (Inr (Some mismatched_json))) (search_request app_text)
       = Inr (Some mismatched_json)
   \<and> JSON_parse (sample_platform (Inr (Some mismatched_json))) mismatched_json
       = Some (JArr [JObj [(js ''titulo'', JStr (js ''Time''))], JNum (Finite 7)])
   \<and> state (fst (handleSearch (sample_platform (Inr (Some mismatched_json))) (app_text, world_init)))
       = \<lparr>isLoading = False, error = None,
          results = [JObj [(js ''titulo'', JStr (js ''Time'')), (js ''id'', JStr (sample_uuid 0))],
                     JObj [(js ''id'', JStr (sample_uuid 1))]]\<rparr>"
proof -
  let ?P = "sample_platform (Inr None)"
  let ?Q = "sample_platform (Inr (Some mismatched_json))"
  have e: "state (fst (handleSearch ?P (app_text, world_init)))
       = \<lparr>isLoading = False, error = None, results = []\<rparr>"
    unfolding handleSearch_valid [OF app_text_valid]
    by (simp add: sample_platform_def Let_def)
  have p: "JSON_parse ?Q mismatched_json
       = Some (JArr [JObj [(js ''titulo'', JStr (js ''Time''))], JNum (Finite 7)])"
    by (simp add: sample_platform_def sample_parses mismatched_parsed_def)
  have m: "state (fst (handleSearch ?Q (app_text, world_init)))
       = \<lparr>isLoading = False, error = None,
          results = [JObj [(js ''titulo'', JStr (js ''Time'')), (js ''id'', JStr (sample_uuid 0))],
                     JObj [(js ''id'', JStr (sample_uuid 1))]]\<rparr>"
    unfolding handleSearch_valid [OF app_text_valid]
    using sample_parses mismatched_mapped
    by (simp add: sample_platform_def Let_def mismatched_parsed_def world_init_def)
  show ?thesis
    using e p m by (simp add: sample_platform_def)
qed

text \<open>
  C3, amended.  For a search that passes validation: the terminal state has
  \<open>isLoading = False\<close>, and an error in it comes with an empty result list (all or
  nothing).  A throwing remote call and a response text that is not JSON end in the
  state with the single message of \<open>searchMusic\<close> and no results; a JSON text that is
  not an array, and an array with a \<open>null\<close> element, end in an error state with no
  results.  A response without text or with the empty text ends without an error and
  with no results.  An array with no \<open>null\<close> element and no identifier that is an
  object passes without any check of its elements: the search ends without an error,
  with one result for each element, the element's own properties with the identifier
  set.
\<close>

theorem search_terminal_state:
  assumes "\<not> ((\<forall>c\<in>set (searchText a). is_white_space c) \<and> audioData a = None)"
    and "handleSearch P (a, w) = (a', w')"
    and "generateContent P (search_request a) = r"
  shows "isLoading (state a') = False
    \<and> (error (state a') \<noteq> None \<longrightarrow> results (state a') = [])
    \<and> ((\<exists>e. r = Inl e) \<longrightarrow> state a' =
          \<lparr>isLoading = False, error = Some (js ''Failed to search for music. Please try again.''),
           results = []\<rparr>)
    \<and> (\<forall>t. r = Inr (Some t) \<and> t \<noteq> [] \<and> JSON_parse P t = None \<longrightarrow> state a' =
          \<lparr>isLoading = False, error = Some (js ''Failed to search for music. Please try again.''),
           results = []\<rparr>)
    \<and> (\<forall>t v. r = Inr (Some t) \<and> t \<noteq> [] \<and> JSON_parse P t = Some v \<and> (\<forall>xs. v \<noteq> JArr xs) \<longrightarrow>
          error (state a') \<noteq> None \<and> results (state a') = [])
    \<and> (\<forall>t xs. r = Inr (Some t) \<and> t \<noteq> [] \<and> JSON_parse P t = Some (JArr xs) \<and> JNull \<in> set xs \<longrightarrow>
          error (state a') \<noteq> None \<and> results (state a') = [])
    \<and> (r = Inr None \<or> r = Inr (Some []) \<longrightarrow>
          state a' = \<lparr>isLoading = False, error = None, results = []\<rparr>)
    \<and> (\<forall>t xs. r = Inr (Some t) \<and> t \<noteq> [] \<and> JSON_parse P t = Some (JArr xs)
          \<and> (\<forall>x\<in>set xs. x \<noteq> JNull \<and> (\<forall>fs. get_id x \<noteq> Some (JObj fs))) \<longrightarrow>
          error (state a') = None
          \<and> length (results (state a')) = length xs
          \<and> (\<forall>i<length xs. \<exists>v. results (state a') ! i
                = JObj (set_property (js ''id'') v (own_properties (xs ! i)))))"
proof -
  note hs = assms(2) [unfolded handleSearch_valid [OF assms(1)]]
  have loaded: "isLoading (state a') = False"
    using hs catch_state_error
    by (auto simp: Let_def split: sum.splits option.splits if_splits)
  have all_or_nothing: "error (state a') \<noteq> None \<longrightarrow> results (state a') = []"
    using hs catch_state_error
    by (auto simp: Let_def split: sum.splits option.splits if_splits)
  have thrown: "state a' = catch_state search_failed" if "r = Inl e" for e
    using hs assms(3) that by (auto simp: Let_def)
  have not_json: "state a' = catch_state search_failed"
    if "r = Inr (Some t)" "t \<noteq> []" "JSON_parse P t = None" for t
    using hs assms(3) that by (auto simp: Let_def)
  have not_array: "error (state a') \<noteq> None \<and> results (state a') = []"
    if "r = Inr (Some t)" "t \<noteq> []" "JSON_parse P t = Some v" "\<forall>xs. v \<noteq> JArr xs" for t v
    using hs assms(3) that(1-3) catch_state_error raw_map_not_array [OF that(4)]
    by (auto simp: Let_def)
  have null_element: "error (state a') \<noteq> None \<and> results (state a') = []"
    if "r = Inr (Some t)" "t \<noteq> []" "JSON_parse P t = Some (JArr xs)" "JNull \<in> set xs" for t xs
    using hs assms(3) that(1-3) catch_state_error
      map_unique_id_null [OF that(4), of "coerced_gt_5 P" "randomUUID P" "uuids_drawn w"]
    by (auto simp: Let_def)
  have empty: "state a' = \<lparr>isLoading = False, error = None, results = []\<rparr>"
    if "r = Inr None \<or> r = Inr (Some [])"
    using hs assms(3) that by (auto simp: Let_def)
  have accepted: "error (state a') = None
      \<and> length (results (state a')) = length xs
      \<and> (\<forall>i<length xs. \<exists>v. results (state a') ! i
            = JObj (set_property (js ''id'') v (own_properties (xs ! i))))"
    if t: "r = Inr (Some t)" "t \<noteq> []" "JSON_parse P t = Some (JArr xs)"
      and plain: "\<forall>x\<in>set xs. x \<noteq> JNull \<and> (\<forall>fs. get_id x \<noteq> Some (JObj fs))" for t xs
  proof -
    obtain out where out: "fst (map_unique_id (coerced_gt_5 P) (randomUUID P) (uuids_drawn w) xs)
        = Some out"
      using map_unique_id_plain [OF plain] by blast
    then have st: "state a' = \<lparr>isLoading = False, error = None, results = out\<rparr>"
      using hs assms(3) t by (auto simp: Let_def)
    show ?thesis
      using map_unique_id_shape [OF out] st by simp
  qed
  have c3: "(\<exists>e. r = Inl e) \<longrightarrow> state a' =
          \<lparr>isLoading = False, error = Some (js ''Failed to search for music. Please try again.''),
           results = []\<rparr>"
    using thrown unfolding catch_state_search_failed by blast
  have c4: "\<forall>t. r = Inr (Some t) \<and> t \<noteq> [] \<and> JSON_parse P t = None \<longrightarrow> state a' =
          \<lparr>isLoading = False, error = Some (js ''Failed to search for music. Please try again.''),
           results = []\<rparr>"
    using not_json unfolding catch_state_search_failed by blast
  have c5: "\<forall>t v. r = Inr (Some t) \<and> t \<noteq> [] \<and> JSON_parse P t = Some v \<and> (\<forall>xs. v \<noteq> JArr xs) \<longrightarrow>
          error (state a') \<noteq> None \<and> results (state a') = []"
    using not_array by blast
  have c6: "\<forall>t xs. r = Inr (Some t) \<and> t \<noteq> [] \<and> JSON_parse P t = Some (JArr xs) \<and> JNull \<in> set xs \<longrightarrow>
          error (state a') \<noteq> None \<and> results (state a') = []"
    using null_element by blast
  have c7: "r = Inr None \<or> r = Inr (Some []) \<longrightarrow>
          state a' = \<lparr>isLoading = False, error = None, results = []\<rparr>"
    using empty by blast
  have c8: "\<forall>t xs. r = Inr (Some t) \<and> t \<noteq> [] \<and> JSON_parse P t = Some (JArr xs)
          \<and> (\<forall>x\<in>set xs. x \<noteq> JNull \<and> (\<forall>fs. get_id x \<noteq> Some (JObj fs))) \<longrightarrow>
          error (state a') = None
          \<and> length (results (state a')) = length xs
          \<and> (\<forall>i<length xs. \<exists>v. results (state a') ! i
                = JObj (set_property (js ''id'') v (own_properties (xs ! i))))"
  proof (intro allI impI)
    fix t xs
    assume h: "r = Inr (Some t) \<and> t \<noteq> [] \<and> JSON_parse P t = Some (JArr xs)
          \<and> (\<forall>x\<in>set xs. x \<noteq> JNull \<and> (\<forall>fs. get_id x \<noteq> Some (JObj fs)))"
    then have "r = Inr (Some t)" "t \<noteq> []" "JSON_parse P t = Some (JArr xs)"
      "\<forall>x\<in>set xs. x \<noteq> JNull \<and> (\<forall>fs. get_id x \<noteq> Some (JObj fs))"
      by simp_all
    then show "error (state a') = None
          \<and> length (results (state a')) = length xs
          \<and> (\<forall>i<length xs. \<exists>v. results (state a') ! i
                = JObj (set_property (js ''id'') v (own_properties (xs ! i))))"
      by (rule accepted)
  qed
  show ?thesis
    by (intro conjI loaded all_or_nothing c3 c4 c5 c6 c7 c8)
qed

theorem search_terminal_state_witness:
  "\<not> (list_all is_white_space (searchText app_text) \<and> audioData app_text = None)
   \<and> generateContent (sample_platform (Inl transport_error)) (search_request app_text)
       = Inl transport_error
   \<and> state (fst (handleSearch (sample_platform (Inl transport_error)) (app_text, world_init)))
       = \<lparr>isLoading = False, error = Some (js ''Failed to search for music. Please try again.''),
          results = []\<rparr>
   \<and> generateContent (sample_platform (Inr (Some with_null_json))) (search_request app_text)
       = Inr (Some with_null_json)
   \<and> with_null_json \<noteq> []
   \<and> JSON_parse (sample_platform (Inr (Some with_null_json))) with_null_json
       = Some (JArr [JObj [(js ''titulo'', JStr (js ''Time''))], JNull])
   \<and> error (state (fst (handleSearch (sample_platform (Inr (Some with_null_json)))
                          (app_text, world_init)))) \<noteq> None
   \<and> results (state (fst (handleSearch (sample_platform (Inr (Some with_null_json)))
                            (app_text, world_init)))) = []
   \<and> generateContent (sample_platform (Inr (Some one_song_json))) (search_request app_text)
       = Inr (Some one_song_json)
   \<and> one_song_json \<noteq> []
   \<and> JSON_parse (sample_platform (Inr (Some one_song_json))) one_song_json = Some one_song_parsed
   \<and> error (state (fst (handleSearch (sample_platform (Inr (Some one_song_json)))
                          (app_text, world_init)))) = None
   \<and> length (results (state (fst (handleSearch (sample_platform (Inr (Some one_song_json)))
                                    (app_text, world_init))))) = 1"
proof -
  let ?P = "sample_platform (Inl transport_error)"
  let ?N = "sample_platform (Inr (Some with_null_json))"
  let ?Q = "sample_platform (Inr (Some one_song_json))"
  let ?song = "[JObj [(js ''id'', JStr (js ''1'')), (js ''titulo'', JStr (js ''Time'')),
                 (js ''artista'', JStr (js ''Hans Zimmer'')),
                 (js ''matchType'', JStr (js ''Contexto'')),
                 (js ''confidence'', JNum (Finite 90))]]"
  have r: "generateContent ?P (search_request app_text) = Inl transport_error"
    by (simp add: sample_platform_def)
  have n: "generateContent ?N (search_request app_text) = Inr (Some with_null_json)"
    by (simp add: sample_platform_def)
  have q: "generateContent ?Q (search_request app_text) = Inr (Some one_song_json)"
    by (simp add: sample_platform_def)
  have pn: "JSON_parse ?N with_null_json = Some (JArr [JObj [(js ''titulo'', JStr (js ''Time''))], JNull])"
    by (simp add: sample_platform_def sample_parses with_null_parsed_def)
  have pq: "JSON_parse ?Q one_song_json = Some one_song_parsed"
    by (simp add: sample_platform_def sample_parses)
  have pq': "JSON_parse ?Q one_song_json
      = Some (JArr [JObj [(js ''id'', JStr (js ''1'')), (js ''titulo'', JStr (js ''Time'')),
                 (js ''artista'', JStr (js ''Hans Zimmer'')),
                 (js ''matchType'', JStr (js ''Contexto'')),
                 (js ''confidence'', JNum (Finite 90))]])"
    using pq by (simp add: one_song_parsed_def)
  have plain: "\<forall>x\<in>set [JObj [(js ''id'', JStr (js ''1'')), (js ''titulo'', JStr (js ''Time'')),
                 (js ''artista'', JStr (js ''Hans Zimmer'')),
                 (js ''matchType'', JStr (js ''Contexto'')),
                 (js ''confidence'', JNum (Finite 90))]].
      x \<noteq> JNull \<and> (\<forall>fs. get_id x \<noteq> Some (JObj fs))"
    by (simp add: js_def)
  note tp = search_terminal_state [OF app_text_valid handleSearch_pair r]
  note tn = search_terminal_state [OF app_text_valid handleSearch_pair n]
  note tq = search_terminal_state [OF app_text_valid handleSearch_pair q]
  have "\<exists>e. (Inl transport_error :: js_error + js_string option) = Inl e"
    by simp
  then have f1: "state (fst (handleSearch ?P (app_text, world_init)))
       = \<lparr>isLoading = False, error = Some (js ''Failed to search for music. Please try again.''),
          results = []\<rparr>"
    by (rule tp [THEN conjunct2, THEN conjunct2, THEN conjunct1, THEN mp])
  have "Inr (Some with_null_json) = Inr (Some with_null_json) \<and> with_null_json \<noteq> []
      \<and> JSON_parse ?N with_null_json = Some (JArr [JObj [(js ''titulo'', JStr (js ''Time''))], JNull])
      \<and> JNull \<in> set [JObj [(js ''titulo'', JStr (js ''Time''))], JNull]"
    using sample_parses(6) pn by simp
  then have f2: "error (state (fst (handleSearch ?N (app_text, world_init)))) \<noteq> None
      \<and> results (state (fst (handleSearch ?N (app_text, world_init)))) = []"
    by (rule tn [THEN conjunct2, THEN conjunct2, THEN conjunct2, THEN conjunct2,
          THEN conjunct2, THEN conjunct1, THEN spec, THEN spec, THEN mp])
  have "Inr (Some one_song_json) = Inr (Some one_song_json) \<and> one_song_json \<noteq> []
      \<and> JSON_parse ?Q one_song_json = Some (JArr ?song)
      \<and> (\<forall>x\<in>set ?song. x \<noteq> JNull \<and> (\<forall>fs. get_id x \<noteq> Some (JObj fs)))"
    using sample_parses(4) pq' plain by simp
  then have "error (state (fst (handleSearch ?Q (app_text, world_init)))) = None
      \<and> length (results (state (fst (handleSearch ?Q (app_text, world_init))))) = length ?song
      \<and> (\<forall>i<length ?song.
            \<exists>v. results (state (fst (handleSearch ?Q (app_text, world_init)))) ! i
              = JObj (set_property (js ''id'') v (own_properties (?song ! i))))"
    by (rule tq [THEN conjunct2, THEN conjunct2, THEN conjunct2, THEN conjunct2,
          THEN conjunct2, THEN conjunct2, THEN conjunct2, THEN spec, THEN spec, THEN mp])
  then have f3: "error (state (fst (handleSearch ?Q (app_text, world_init)))) = None
      \<and> length (results (state (fst (handleSearch ?Q (app_text, world_init))))) = 1"
    by simp
  have v: "\<not> (list_all is_white_space (searchText app_text) \<and> audioData app_text = None)"
    using app_text_valid by (simp add: list_all_iff)
  show ?thesis
    by (intro conjI v r f1 n sample_parses(6) pn f2 [THEN conjunct1] f2 [THEN conjunct2]
        q sample_parses(4) pq f3 [THEN conjunct1] f3 [THEN conjunct2])
qed

text \<open>
  C4.  The text is empty or whitespace-only when each of its code units is white space.
  With such a text and no audio, the search ends with the validation message and sends
  nothing to the remote service.  With a text that has another code unit, or with audio,
  one request is sent, and the terminal error is not the validation message (given that
  the engine's own \<open>TypeError\<close> text is not that message).
\<close>

theorem validation_guard:
  assumes "handleSearch P (a, w) = (a', w')"
  shows "((\<forall>c\<in>set (searchText a). is_white_space c) \<and> audioData a = None \<longrightarrow>
            error (state a') = Some validation_message \<and> remote_calls w' = remote_calls w)
    \<and> (\<not> ((\<forall>c\<in>set (searchText a). is_white_space c) \<and> audioData a = None) \<longrightarrow>
            remote_calls w' = remote_calls w @ [search_request a]
            \<and> (not_a_function P \<noteq> validation_message \<longrightarrow>
                 error (state a') \<noteq> Some validation_message))"
proof (cases "(\<forall>c\<in>set (searchText a). is_white_space c) \<and> audioData a = None")
  case True
  then have "handleSearch P (a, w) = (a\<lparr>state := (state a)\<lparr>error := Some validation_message\<rparr>\<rparr>, w)"
    by (simp add: handleSearch_invalid)
  with assms True show ?thesis by auto
next
  case False
  have ne1: "js ''Failed to search for music. Please try again.'' \<noteq> validation_message"
    by (simp add: validation_message_def js_def)
  have ne2: "js ''An unexpected error occurred.'' \<noteq> validation_message"
    by (simp add: validation_message_def js_def)
  have cs: "not_a_function P \<noteq> validation_message \<Longrightarrow>
      error (catch_state (Error (not_a_function P))) \<noteq> Some validation_message"
    using ne2 by (simp add: catch_state_def or_else_def)
  show ?thesis
    using assms False ne1 cs unfolding handleSearch_valid [OF False]
    by (auto simp: Let_def catch_state_search_failed
        split: sum.splits option.splits if_splits)
qed

theorem validation_guard_witness:
  "list_all is_white_space (searchText app_init) \<and> audioData app_init = None
   \<and> error (state (fst (handleSearch (sample_platform (Inl transport_error)) (app_init, world_init))))
       = Some validation_message
   \<and> remote_calls (snd (handleSearch (sample_platform (Inl transport_error)) (app_init, world_init))) = []
   \<and> \<not> (list_all is_white_space (searchText app_text) \<and> audioData app_text = None)
   \<and> remote_calls (snd (handleSearch (sample_platform (Inl transport_error)) (app_text, world_init)))
       = [search_request app_text]
   \<and> not_a_function (sample_platform (Inl transport_error)) \<noteq> validation_message
   \<and> error (state (fst (handleSearch (sample_platform (Inl transport_error)) (app_text, world_init))))
       \<noteq> Some validation_message"
proof -
  let ?P = "sample_platform (Inl transport_error)"
  have nf: "not_a_function ?P \<noteq> validation_message"
    by (simp add: sample_platform_def validation_message_def js_def)
  have i: "(\<forall>c\<in>set (searchText app_init). is_white_space c) \<and> audioData app_init = None"
    by (simp add: app_init_def)
  have w: "remote_calls world_init = []"
    by (simp add: world_init_def)
  have "error (state (fst (handleSearch ?P (app_init, world_init)))) = Some validation_message
      \<and> remote_calls (snd (handleSearch ?P (app_init, world_init))) = []"
    using validation_guard [where P = ?P and a = app_init and w = world_init, OF handleSearch_pair]
      i w by simp
  moreover have "remote_calls (snd (handleSearch ?P (app_text, world_init))) = [search_request app_text]
      \<and> error (state (fst (handleSearch ?P (app_text, world_init)))) \<noteq> Some validation_message"
    using validation_guard [where P = ?P and a = app_text and w = world_init, OF handleSearch_pair]
      app_text_valid w nf by simp
  ultimately show ?thesis using i app_text_valid nf by (simp add: list_all_iff)
qed

text \<open>
  C10.  When validation fails, the search state keeps its \<open>isLoading\<close> flag and its
  result list and only the error message is set; the rest of the application state and
  the world outside are as before.
\<close>

theorem validation_frame:
  assumes "\<forall>c\<in>set (searchText a). is_white_space c" and "audioData a = None"
    and "handleSearch P (a, w) = (a', w')"
  shows "isLoading (state a') = isLoading (state a)
    \<and> results (state a') = results (state a)
    \<and> error (state a') = Some validation_message
    \<and> state a' = (state a)\<lparr>error := Some validation_message\<rparr>
    \<and> a' = a\<lparr>state := state a'\<rparr>
    \<and> w' = w"
  using assms(3) unfolding handleSearch_invalid [OF assms(1,2)] by auto

theorem validation_frame_witness:
  "list_all is_white_space (searchText app_shown) \<and> audioData app_shown = None
   \<and> state (fst (handleSearch (sample_platform (Inr None)) (app_shown, world_init)))
       = \<lparr>isLoading = False, error = Some validation_message,
          results = [song_json song_a, song_json song_b]\<rparr>"
proof -
  let ?P = "sample_platform (Inr None)"
  have ws: "\<forall>c\<in>set (searchText app_shown). is_white_space c"
    by (simp add: app_shown_def app_init_def js_def is_white_space_def)
  have au: "audioData app_shown = None"
    by (simp add: app_shown_def app_init_def)
  have "state (fst (handleSearch ?P (app_shown, world_init)))
      = (state app_shown)\<lparr>error := Some validation_message\<rparr>"
    using validation_frame [OF ws au handleSearch_pair] by blast
  then show ?thesis
    using ws au by (simp add: app_shown_def app_init_def list_all_iff)
qed

section \<open>The recorder\<close>

lemma timer_bound_mounted: "timer_bound mounted"
  by (simp add: timer_bound_def mounted_def)

lemma timer_bound_step: "ui_step s e = Some t \<Longrightarrow> timer_bound s \<Longrightarrow> timer_bound t"
proof (cases e)
  case Click_mic
  assume "ui_step s e = Some t" and "timer_bound s"
  with Click_mic show ?thesis
    by (auto simp: ui_step_def timer_bound_def getUserMedia_def split: if_splits)
next
  case (Permission_settles granted)
  assume "ui_step s e = Some t" and "timer_bound s"
  with Permission_settles show ?thesis
    by (cases granted)
      (auto simp: ui_step_def timer_bound_def startRecording_def split: if_splits)
next
  case Click_stop
  assume "ui_step s e = Some t" and "timer_bound s"
  with Click_stop show ?thesis
    by (auto simp: ui_step_def timer_bound_def stopRecording_def split: if_splits)
next
  case Click_discard
  assume "ui_step s e = Some t" and "timer_bound s"
  with Click_discard show ?thesis
    by (auto simp: ui_step_def timer_bound_def clearRecording_def split: if_splits)
next
  case (Interval_fires i)
  assume "ui_step s e = Some t" and "timer_bound s"
  with Interval_fires show ?thesis
    by (auto simp: ui_step_def timer_bound_def tick_def split: if_splits)
next
  case (Data_available c)
  assume "ui_step s e = Some t" and "timer_bound s"
  with Data_available show ?thesis
    by (auto simp: ui_step_def timer_bound_def ondataavailable_def split: if_splits)
qed

lemma timer_bound_run: "run s es = Some t \<Longrightarrow> timer_bound s \<Longrightarrow> timer_bound t"
proof (induction es arbitrary: s)
  case Nil
  then show ?case by simp
next
  case (Cons e es)
  from Cons.prems(1) obtain u where u: "ui_step s e = Some u" and r: "run u es = Some t"
    by (auto split: option.splits)
  from u Cons.prems(2) have "timer_bound u" by (rule timer_bound_step)
  with r show ?case by (rule Cons.IH)
qed

lemma mounted_run_timer_bound: "run mounted es = Some s \<Longrightarrow> timer_bound s"
  by (erule timer_bound_run) (rule timer_bound_mounted)

lemma recording_1_eval:
  "recording_1 = \<lparr>status = RECORDING, timer = 0, mediaRecorderRef = Some 7, chunksRef = [],
     timerIntervalRef = Some 1, intervals = [1], next_interval = 2, capturing = [7],
     onClear_calls = 0, pending = 0\<rparr>"
  by (simp add: recording_1_def startRecording_def mounted_def)

lemma finished_1_eval:
  "finished_1 = \<lparr>status = FINISHED, timer = 0, mediaRecorderRef = Some 7, chunksRef = [],
     timerIntervalRef = Some 1, intervals = [], next_interval = 2, capturing = [],
     onClear_calls = 0, pending = 0\<rparr>"
  by (simp add: finished_1_def recording_1_eval stopRecording_def clear_timer_def)

lemma run_recording_1: "run mounted [Click_mic, Permission_settles (Some 7)] = Some recording_1"
  by (simp add: ui_step_def getUserMedia_def recording_1_def mounted_def)

lemma run_finished_1:
  "run mounted [Click_mic, Permission_settles (Some 7), Click_stop] = Some finished_1"
  by (simp add: ui_step_def getUserMedia_def finished_1_def recording_1_def
      startRecording_def mounted_def)

text \<open>
  Of the three handlers only \<open>stopRecording\<close> tests the status: outside
  \<open>RECORDING\<close> it changes nothing.  \<open>startRecording\<close> with access granted goes to
  \<open>RECORDING\<close> from any state, and \<open>clearRecording\<close> to \<open>IDLE\<close>.
\<close>

lemma stopRecording_guarded: "status s \<noteq> RECORDING \<Longrightarrow> stopRecording s = s"
  by (simp add: stopRecording_def)

lemma startRecording_unguarded: "status (startRecording (Some m) s) = RECORDING"
  by (simp add: startRecording_def)

lemma clearRecording_unguarded: "status (clearRecording s) = IDLE"
  by (simp add: clearRecording_def)

text \<open>
  While recording, neither the discard button nor the microphone button is there; the
  microphone button is there while a permission request is pending.
\<close>

lemma buttons_while_recording:
  "ui_step recording_1 Click_discard = None \<and> ui_step recording_1 Click_mic = None"
  by (simp add: ui_step_def recording_1_eval)

lemma button_while_pending:
  "ui_step (getUserMedia mounted) Click_mic = Some (getUserMedia (getUserMedia mounted))"
  by (simp add: ui_step_def getUserMedia_def mounted_def)

text \<open>
  C1: in a state other than its own an operation changes nothing; a start succeeds from
  \<open>IDLE\<close> only.  The code: after two clicks on the microphone button the second
  permission request settles while the recorder is recording, and \<open>startRecording\<close>
  runs again: the counter goes from 1 back to 0, a second interval and a second media
  recorder are started.  When the stop button is clicked in between, the second
  request settles in \<open>FINISHED\<close> and the recorder goes to \<open>RECORDING\<close> with no reset.
\<close>

theorem duplicate_start_not_noop:
  "run mounted [Click_mic, Click_mic, Permission_settles (Some 7), Interval_fires 1]
     = Some \<lparr>status = RECORDING, timer = 1, mediaRecorderRef = Some 7, chunksRef = [],
         timerIntervalRef = Some 1, intervals = [1], next_interval = 2, capturing = [7],
         onClear_calls = 0, pending = 1\<rparr>
   \<and> run mounted [Click_mic, Click_mic, Permission_settles (Some 7), Interval_fires 1,
                  Permission_settles (Some 8)]
     = Some \<lparr>status = RECORDING, timer = 0, mediaRecorderRef = Some 8, chunksRef = [],
         timerIntervalRef = Some 2, intervals = [1, 2], next_interval = 3, capturing = [7, 8],
         onClear_calls = 0, pending = 0\<rparr>
   \<and> run mounted [Click_mic, Click_mic, Permission_settles (Some 7), Click_stop]
     = Some \<lparr>status = FINISHED, timer = 0, mediaRecorderRef = Some 7, chunksRef = [],
         timerIntervalRef = Some 1, intervals = [], next_interval = 2, capturing = [],
         onClear_calls = 0, pending = 1\<rparr>
   \<and> run mounted [Click_mic, Click_mic, Permission_settles (Some 7), Click_stop,
                  Permission_settles (Some 8)]
     = Some \<lparr>status = RECORDING, timer = 0, mediaRecorderRef = Some 8, chunksRef = [],
         timerIntervalRef = Some 2, intervals = [2], next_interval = 3, capturing = [8],
         onClear_calls = 0, pending = 0\<rparr>"
  by (simp add: ui_step_def mounted_def getUserMedia_def startRecording_def stopRecording_def
      clear_timer_def tick_def)

text \<open>
  What \<open>stopRecording\<close> cancels is the interval held in \<open>timerIntervalRef\<close>, and
  after a single start no interval is left.
\<close>

lemma stopRecording_cancels:
  "status s = RECORDING \<Longrightarrow> mediaRecorderRef s \<noteq> None \<Longrightarrow> timerIntervalRef s = Some i \<Longrightarrow>
   i \<noteq> 0 \<Longrightarrow> status (stopRecording s) = FINISHED \<and> i \<notin> set (intervals (stopRecording s))"
  by (simp add: stopRecording_def clear_timer_def)

lemma single_start_no_timer_left: "intervals finished_1 = []"
  by (simp add: finished_1_eval)

text \<open>
  C6: no interval is active after a transition out of \<open>RECORDING\<close>.  The code: after
  two clicks on the microphone button both permission requests settle, the second run
  of \<open>startRecording\<close> overwrites \<open>timerIntervalRef\<close> without cancelling the first
  interval, and the stop cancels the second only.  In \<open>FINISHED\<close> the first interval
  is still active and keeps counting, also after the reset that follows.
\<close>

theorem duplicate_start_timer_survives:
  "run mounted [Click_mic, Click_mic, Permission_settles (Some 7), Permission_settles (Some 8),
                Click_stop]
     = Some \<lparr>status = FINISHED, timer = 0, mediaRecorderRef = Some 8, chunksRef = [],
         timerIntervalRef = Some 2, intervals = [1], next_interval = 3, capturing = [7],
         onClear_calls = 0, pending = 0\<rparr>
   \<and> run mounted [Click_mic, Click_mic, Permission_settles (Some 7), Permission_settles (Some 8),
                  Click_stop, Interval_fires 1]
     = Some \<lparr>status = FINISHED, timer = 1, mediaRecorderRef = Some 8, chunksRef = [],
         timerIntervalRef = Some 2, intervals = [1], next_interval = 3, capturing = [7],
         onClear_calls = 0, pending = 0\<rparr>
   \<and> run mounted [Click_mic, Click_mic, Permission_settles (Some 7), Permission_settles (Some 8),
                  Click_stop, Click_discard]
     = Some \<lparr>status = IDLE, timer = 0, mediaRecorderRef = Some 8, chunksRef = [],
         timerIntervalRef = Some 2, intervals = [1], next_interval = 3, capturing = [7],
         onClear_calls = 1, pending = 0\<rparr>"
  by (simp add: ui_step_def mounted_def getUserMedia_def startRecording_def stopRecording_def
      clearRecording_def clear_timer_def tick_def)

text \<open>
  C8.  A granted start from \<open>IDLE\<close> reaches \<open>RECORDING\<close> with the counter at 0;
  each run of an active interval's callback while recording adds exactly 1 and keeps
  the status; the counter is 0 after a reset from any state.  While a mounted recorder
  is recording an interval is active.
\<close>

theorem elapsed_seconds:
  "(status s = IDLE \<longrightarrow>
      status (startRecording (Some m) s) = RECORDING \<and> timer (startRecording (Some m) s) = 0)
   \<and> (status s = RECORDING \<and> i \<in> set (intervals s) \<longrightarrow>
      timer (tick i s) = timer s + 1 \<and> status (tick i s) = RECORDING)
   \<and> timer (clearRecording s) = 0
   \<and> (run mounted es = Some s \<and> status s = RECORDING \<longrightarrow> intervals s \<noteq> [])"
proof -
  have "intervals s \<noteq> []" if "run mounted es = Some s" and "status s = RECORDING"
    using mounted_run_timer_bound [OF that(1)] that(2) by (auto simp: timer_bound_def)
  then show ?thesis
    by (simp add: startRecording_def tick_def clearRecording_def)
qed

theorem elapsed_seconds_witness:
  "status mounted = IDLE
   \<and> status (startRecording (Some 7) mounted) = RECORDING
   \<and> timer (startRecording (Some 7) mounted) = 0
   \<and> status recording_1 = RECORDING \<and> 1 \<in> set (intervals recording_1)
   \<and> timer (tick 1 recording_1) = timer recording_1 + 1
   \<and> run mounted [Click_mic, Permission_settles (Some 7)] = Some recording_1
   \<and> intervals recording_1 \<noteq> []"
proof -
  have m: "status mounted = IDLE"
    by (simp add: mounted_def)
  have r: "status recording_1 = RECORDING \<and> 1 \<in> set (intervals recording_1)"
    by (simp add: recording_1_eval)
  show ?thesis
    using elapsed_seconds [where s = mounted and m = 7]
      elapsed_seconds [where s = recording_1 and i = 1
        and es = "[Click_mic, Permission_settles (Some 7)]"]
      m r run_recording_1
    by simp
qed

end
